theory Spec2Isabelle
  imports Main
begin

section \<open>The RFID scanner component of \<^verbatim>\<open>src/components/RFIDScanner.tsx\<close>\<close>

text \<open>
  The component keeps six pieces of React state and talks to the outside through three
  channels: the \<^verbatim>\<open>onRFIDDetected\<close> callback of its parent, the toast
  notifications, and \<^verbatim>\<open>console.error\<close>. Each handler of the component is a
  function from the state before the call to the state after it; the channels are logs
  inside the state, oldest entry first. What the handlers get from the platform (each
  reading of the clock, the outcome of a serial-port call, the next result of the stream
  reader, the Unicode case tables) is a parameter. The parent's callback, the toast
  function and the state setters are taken to return normally.
\<close>

subsection \<open>Text\<close>

text \<open>
  A JavaScript string is a list of UTF-16 code units, here natural numbers; \<open>js\<close> turns
  an ASCII literal into one. The functions of this subsection are the built-ins the
  component calls.
\<close>

type_synonym jsstring = "nat list"

definition js :: "string \<Rightarrow> jsstring" where
  "js lit = map of_char lit"

definition is_ws :: "nat \<Rightarrow> bool" where
  \<comment> \<open>what \<^verbatim>\<open>String.prototype.trim\<close> removes, the white space and the line terminators
      of ECMAScript: TAB, LF, VT, FF, CR, the space, the no-break space, U+1680,
      U+2000 to U+200A, U+2028, U+2029, U+202F, U+205F, U+3000 and U+FEFF\<close>
  "is_ws c =
     (c \<in> set [0x09, 0x0A, 0x0B, 0x0C, 0x0D, 0x20, 0xA0, 0x1680, 0x2028, 0x2029, 0x202F,
        0x205F, 0x3000, 0xFEFF]
      \<or> (0x2000 \<le> c \<and> c \<le> 0x200A))"

definition trim :: "jsstring \<Rightarrow> jsstring" where
  \<comment> \<open>\<^verbatim>\<open>s.trim()\<close>: white space is removed at both ends, never inside\<close>
  "trim s = rev (dropWhile is_ws (rev (dropWhile is_ws s)))"

definition is_crlf :: "nat \<Rightarrow> bool" where
  \<comment> \<open>the character class \<^verbatim>\<open>[\r\n]\<close>\<close>
  "is_crlf c = (c = 0x0D \<or> c = 0x0A)"

definition is_hex :: "nat \<Rightarrow> bool" where
  \<comment> \<open>the character class \<^verbatim>\<open>[A-Fa-f0-9]\<close>\<close>
  "is_hex c =
     ((0x41 \<le> c \<and> c \<le> 0x46) \<or> (0x61 \<le> c \<and> c \<le> 0x66) \<or> (0x30 \<le> c \<and> c \<le> 0x39))"

definition upper_ascii :: "nat \<Rightarrow> nat" where
  \<comment> \<open>the uppercase mapping of an ASCII character: \<^verbatim>\<open>a\<close> to \<^verbatim>\<open>z\<close> go to
      \<^verbatim>\<open>A\<close> to \<^verbatim>\<open>Z\<close>\<close>
  "upper_ascii c = (if 0x61 \<le> c \<and> c \<le> 0x7A then c - 0x20 else c)"

text \<open>
  \<^verbatim>\<open>s.toUpperCase()\<close> maps a text according to the Unicode case tables of the
  platform. On a text of ASCII characters only, that is \<open>upper_ascii\<close> on each
  character. On any other text the result is what the platform's tables give, the
  parameter \<open>uc\<close>, of which nothing is assumed.
\<close>

definition toUpperCase :: "(jsstring \<Rightarrow> jsstring) \<Rightarrow> jsstring \<Rightarrow> jsstring" where
  "toUpperCase uc s = (if list_all (\<lambda>c. c < 0x80) s then map upper_ascii s else uc s)"

definition rfidPattern_test :: "jsstring \<Rightarrow> bool" where
  \<comment> \<open>\<^verbatim>\<open>/^[A-Fa-f0-9]{8,16}$/.test(s)\<close>: the whole text is 8 to 16 characters of the
      class (the pattern has no \<^verbatim>\<open>m\<close> flag, so \<^verbatim>\<open>$\<close> is the end of the text)\<close>
  "rfidPattern_test s = (8 \<le> length s \<and> length s \<le> 16 \<and> list_all is_hex s)"

function decimal :: "nat \<Rightarrow> jsstring" where
  \<comment> \<open>how a template literal prints a non-negative integer such as \<^verbatim>\<open>Date.now()\<close>\<close>
  "decimal n =
     (if n < 10 then [0x30 + n]
      else decimal (n div 10) @ [0x30 + n mod 10])"
  by pat_completeness auto
termination
  by (relation "measure id") auto

declare decimal.simps [simp del]

definition rfid_payload :: "jsstring \<Rightarrow> nat \<Rightarrow> jsstring" where
  \<comment> \<open>the template literal \<^verbatim>\<open>`RFID:${uid}:${timestamp}`\<close>\<close>
  "rfid_payload uid timestamp = js ''RFID:'' @ uid @ js '':'' @ decimal timestamp"

subsection \<open>State\<close>

datatype status = Ready | Scanning | Error | Offline

datatype toast_variant = Default | Destructive

record toast =
  title :: jsstring
  description :: jsstring
  variant :: toast_variant
  duration :: "nat option"

text \<open>
  A serial port and a stream reader are handles, numbered; \<^verbatim>\<open>null\<close> is \<open>None\<close>.
  \<open>lastScanTime\<close> holds the clock reading of \<^verbatim>\<open>new Date()\<close> in milliseconds.
  \<open>detected\<close> lists the arguments of the calls of \<^verbatim>\<open>onRFIDDetected\<close>, \<open>toasts\<close>
  the calls of \<^verbatim>\<open>toast\<close>, and \<open>console\<close> the messages of \<^verbatim>\<open>console.error\<close>.

  \<open>cancelled\<close> is no state of the component but of the platform: the readers on which
  \<^verbatim>\<open>cancel()\<close> has been called. A call of \<^verbatim>\<open>cancel()\<close> closes the reader's stream
  before the call settles, whether it then resolves or rejects, and every read of a
  closed stream resolves with \<^verbatim>\<open>done\<close>.
\<close>

record scanner =
  manualRFID :: jsstring
  isScanning :: bool
  rfidReaderStatus :: status
  lastScanTime :: "nat option"
  serialPort :: "nat option"
  reader :: "nat option"
  detected :: "jsstring list"
  toasts :: "toast list"
  console :: "string list"
  cancelled :: "nat list"

definition initial :: "jsstring option \<Rightarrow> scanner" where
  \<comment> \<open>the \<^verbatim>\<open>useState\<close> initial values; the argument is the prop \<^verbatim>\<open>currentRFID\<close>\<close>
  "initial currentRFID =
     \<lparr>manualRFID = (case currentRFID of None \<Rightarrow> [] | Some c \<Rightarrow> c),
      isScanning = False,
      rfidReaderStatus = Offline,
      lastScanTime = None,
      serialPort = None,
      reader = None,
      detected = [],
      toasts = [],
      console = [],
      cancelled = []\<rparr>"

subsection \<open>Initialising and connecting\<close>

definition initializeRFIDReader :: "bool \<Rightarrow> scanner \<Rightarrow> scanner" where
  \<comment> \<open>the argument is \<^verbatim>\<open>'serial' in navigator\<close>\<close>
  "initializeRFIDReader serial_supported s =
     (if \<not> serial_supported then
        s\<lparr>rfidReaderStatus := Error,
          toasts := toasts s @
            [\<lparr>title = js ''RFID Reader Error'',
              description = js ''Web Serial API not supported. Use Chrome/Edge browser.'',
              variant = Destructive, duration = None\<rparr>]\<rparr>
      else
        s\<lparr>rfidReaderStatus := Ready,
          toasts := toasts s @
            [\<lparr>title = js ''RFID Reader Ready'',
              description = js ''Click 'Connect Reader' to connect your RFID device.'',
              variant = Default, duration = None\<rparr>]\<rparr>)"

text \<open>
  What the platform answers to \<^verbatim>\<open>connectRFIDReader\<close>: \<^verbatim>\<open>requestPort\<close> rejects,
  \<^verbatim>\<open>port.open\<close> rejects, \<^verbatim>\<open>port.readable.getReader()\<close> throws on the opened
  port, or all three succeed and give a port and a reader.
\<close>

datatype connect_outcome =
    RequestRejected
  | OpenFailed
  | GetReaderFailed nat
  | Opened nat nat

definition connection_failed :: toast where
  "connection_failed =
     \<lparr>title = js ''Connection Failed'',
      description = js ''Failed to connect to RFID reader. Check device connection.'',
      variant = Destructive, duration = None\<rparr>"

fun connectRFIDReader :: "connect_outcome \<Rightarrow> scanner \<Rightarrow> scanner" where
  "connectRFIDReader RequestRejected s =
     s\<lparr>rfidReaderStatus := Error, toasts := toasts s @ [connection_failed]\<rparr>"
| "connectRFIDReader OpenFailed s =
     s\<lparr>rfidReaderStatus := Error, toasts := toasts s @ [connection_failed]\<rparr>"
| "connectRFIDReader (GetReaderFailed port) s =
     s\<lparr>serialPort := Some port, rfidReaderStatus := Error,
       toasts := toasts s @ [connection_failed]\<rparr>"
| "connectRFIDReader (Opened port rd) s =
     s\<lparr>serialPort := Some port, rfidReaderStatus := Scanning, reader := Some rd,
       toasts := toasts s @
         [\<lparr>title = js ''RFID Reader Connected'',
           description = js ''Place an RFID card near the reader to scan.'',
           variant = Default, duration = None\<rparr>]\<rparr>"

subsection \<open>Reading from the device\<close>

text \<open>
  \<open>processRFIDData\<close> gets the decoded text of one chunk. It reads the clock twice:
  \<open>now\<close> is \<^verbatim>\<open>Date.now()\<close>, for the payload, and \<open>seen\<close> is \<^verbatim>\<open>new Date()\<close>, read
  after the parent's callback has returned, for \<open>lastScanTime\<close>.
\<close>

definition cleanData :: "jsstring \<Rightarrow> jsstring" where
  \<comment> \<open>\<^verbatim>\<open>data.trim().replace(/[\r\n]/g, '')\<close>\<close>
  "cleanData data = filter (\<lambda>c. \<not> is_crlf c) (trim data)"

definition processRFIDData ::
  "(jsstring \<Rightarrow> jsstring) \<Rightarrow> jsstring \<Rightarrow> nat \<Rightarrow> nat \<Rightarrow> scanner \<Rightarrow> scanner" where
  "processRFIDData uc data now seen s =
     (if 8 \<le> length (cleanData data) then
        let rfidData = rfid_payload (toUpperCase uc (cleanData data)) now in
        s\<lparr>manualRFID := rfidData,
          detected := detected s @ [rfidData],
          lastScanTime := Some seen,
          toasts := toasts s @
            [\<lparr>title = js ''RFID Card Read Successfully'',
              description = js ''Card UID: '' @ toUpperCase uc (cleanData data),
              variant = Default, duration = Some 3000\<rparr>]\<rparr>
      else s)"

text \<open>
  What the device makes of one \<^verbatim>\<open>await reader.read()\<close>: a chunk (its text as
  \<^verbatim>\<open>TextDecoder\<close> decodes it), a result with neither a value nor \<^verbatim>\<open>done\<close>, the
  end of the stream, or a rejected read.
\<close>

datatype read_result = Chunk jsstring | NoValue | Done | ReadError

text \<open>
  The loop of \<open>startReading\<close> on the reader \<open>rd\<close>, run on what the device has for its
  reads, each with the two clock readings of its turn. The empty list is the loop
  suspended in \<^verbatim>\<open>await\<close>. Once \<^verbatim>\<open>cancel()\<close> has been called on the reader, its read
  resolves with \<^verbatim>\<open>done\<close> whatever the device has, and the loop ends. The parent's
  callback is taken to return: were it to throw inside \<open>processRFIDData\<close>, the
  \<^verbatim>\<open>catch\<close> of the loop would log and set the status to \<open>Error\<close>, as for a rejected
  read.
\<close>

fun startReading ::
  "(jsstring \<Rightarrow> jsstring) \<Rightarrow> nat \<Rightarrow> (read_result \<times> nat \<times> nat) list \<Rightarrow> scanner \<Rightarrow> scanner" where
  "startReading uc rd [] s = s"
| "startReading uc rd ((res, now, seen) # rest) s =
     (if rd \<in> set (cancelled s) then s
      else case res of
          Done \<Rightarrow> s
        | NoValue \<Rightarrow> startReading uc rd rest s
        | Chunk data \<Rightarrow> startReading uc rd rest (processRFIDData uc data now seen s)
        | ReadError \<Rightarrow>
            s\<lparr>console := console s @ [''Error reading from RFID device:''],
              rfidReaderStatus := Error\<rparr>)"

subsection \<open>Disconnecting\<close>

text \<open>
  \<open>disconnectRFIDReader\<close> reads \<^verbatim>\<open>reader\<close> and \<^verbatim>\<open>serialPort\<close> from the render
  that created the function: the first argument. \<open>teardown\<close> says whether
  \<^verbatim>\<open>reader.cancel()\<close> and \<^verbatim>\<open>serialPort.close()\<close> resolve; a call that is not
  made has no outcome to read. The whole body is inside one \<^verbatim>\<open>try\<close>, and the
  \<^verbatim>\<open>catch\<close> logs.
\<close>

record closure =
  c_reader :: "nat option"
  c_serialPort :: "nat option"

record teardown =
  cancel_ok :: bool
  close_ok :: bool

definition disconnect_error :: string where
  "disconnect_error = ''Error disconnecting RFID reader:''"

definition disconnectRFIDReader :: "closure \<Rightarrow> teardown \<Rightarrow> scanner \<Rightarrow> scanner" where
  "disconnectRFIDReader c t s =
     (let s0 = (case c_reader c of
                  None \<Rightarrow> s
                | Some rd \<Rightarrow> s\<lparr>cancelled := cancelled s @ [rd]\<rparr>) in
      if c_reader c \<noteq> None \<and> \<not> cancel_ok t then
        s0\<lparr>console := console s0 @ [disconnect_error]\<rparr>
      else
        let s1 = (if c_reader c \<noteq> None then s0\<lparr>reader := None\<rparr> else s0) in
        if c_serialPort c \<noteq> None \<and> \<not> close_ok t then
          s1\<lparr>console := console s1 @ [disconnect_error]\<rparr>
        else
          let s2 = (if c_serialPort c \<noteq> None then s1\<lparr>serialPort := None\<rparr> else s1) in
          s2\<lparr>rfidReaderStatus := Offline\<rparr>)"

definition current :: "scanner \<Rightarrow> closure" where
  \<comment> \<open>the closure of the latest render\<close>
  "current s = \<lparr>c_reader = reader s, c_serialPort = serialPort s\<rparr>"

definition disconnect :: "teardown \<Rightarrow> scanner \<Rightarrow> scanner" where
  \<comment> \<open>the button \<^verbatim>\<open>Disconnect Reader\<close>: \<^verbatim>\<open>onClick={disconnectRFIDReader}\<close> of the
      latest render\<close>
  "disconnect t s = disconnectRFIDReader (current s) t s"

text \<open>
  The effect on \<^verbatim>\<open>[isActive]\<close>. When \<^verbatim>\<open>isActive\<close> turns false, React first runs
  the cleanup of the effect's last run, which calls the \<open>disconnectRFIDReader\<close> of the
  render of that run (closure \<open>stale\<close>), and then the effect's \<^verbatim>\<open>else\<close> branch,
  which calls the one of the latest render. Both calls set state to constants only, so
  the state after both does not depend on how their \<^verbatim>\<open>await\<close>s interleave. At
  unmount React runs the cleanup alone.
\<close>

definition deactivate :: "closure \<Rightarrow> teardown \<Rightarrow> teardown \<Rightarrow> scanner \<Rightarrow> scanner" where
  "deactivate stale t_cleanup t s =
     disconnectRFIDReader (current s) t (disconnectRFIDReader stale t_cleanup s)"

definition unmount :: "closure \<Rightarrow> teardown \<Rightarrow> scanner \<Rightarrow> scanner" where
  "unmount stale t_cleanup s = disconnectRFIDReader stale t_cleanup s"

subsection \<open>Manual entry\<close>

definition onChange :: "(jsstring \<Rightarrow> jsstring) \<Rightarrow> jsstring \<Rightarrow> scanner \<Rightarrow> scanner" where
  \<comment> \<open>the input field: \<^verbatim>\<open>setManualRFID(e.target.value.toUpperCase())\<close>\<close>
  "onChange uc v s = s\<lparr>manualRFID := toUpperCase uc v\<rparr>"

definition invalid_format :: toast where
  "invalid_format =
     \<lparr>title = js ''Invalid RFID Format'',
      description = js ''Please enter a valid hexadecimal RFID UID (8-16 characters)'',
      variant = Destructive, duration = None\<rparr>"

definition cleanRFID :: "jsstring \<Rightarrow> jsstring" where
  \<comment> \<open>\<^verbatim>\<open>manualRFID.replace(/[^A-Fa-f0-9]/g, '')\<close>\<close>
  "cleanRFID raw = filter is_hex raw"

text \<open>
  \<open>handleManualInput\<close> reads the clock twice as well: \<open>now\<close> is \<^verbatim>\<open>Date.now()\<close> in
  the payload, \<open>seen\<close> is \<^verbatim>\<open>new Date()\<close> after the parent's callback.
\<close>

definition handleManualInput ::
  "(jsstring \<Rightarrow> jsstring) \<Rightarrow> nat \<Rightarrow> nat \<Rightarrow> scanner \<Rightarrow> scanner" where
  "handleManualInput uc now seen s =
     (if trim (manualRFID s) \<noteq> [] then
        if rfidPattern_test (cleanRFID (manualRFID s)) then
          s\<lparr>detected := detected s @
              [rfid_payload (toUpperCase uc (cleanRFID (manualRFID s))) now],
            lastScanTime := Some seen,
            toasts := toasts s @
              [\<lparr>title = js ''RFID Set Successfully'',
                description = js ''Card UID: '' @ toUpperCase uc (cleanRFID (manualRFID s)),
                variant = Default, duration = None\<rparr>]\<rparr>
        else s\<lparr>toasts := toasts s @ [invalid_format]\<rparr>
      else s)"

definition clearRFID :: "scanner \<Rightarrow> scanner" where
  "clearRFID s = s\<lparr>manualRFID := [], detected := detected s @ [[]], lastScanTime := None\<rparr>"

subsection \<open>Scan events\<close>

text \<open>
  The component hands a scan to its parent as the text \<^verbatim>\<open>RFID:<identifier>:<time>\<close>.
  \<open>identifier_of\<close> reads the identifier back: what stands after the five characters of
  the prefix and before the last colon. \<open>emitted s s'\<close> are the values handed to the
  parent between the states \<open>s\<close> and \<open>s'\<close>.
\<close>

definition identifier_of :: "jsstring \<Rightarrow> jsstring" where
  "identifier_of e = rev (drop 1 (dropWhile (\<lambda>c. c \<noteq> 0x3A) (rev (drop 5 e))))"

definition emitted :: "scanner \<Rightarrow> scanner \<Rightarrow> jsstring list" where
  "emitted s s' = drop (length (detected s)) (detected s')"

definition canonical_format :: "jsstring \<Rightarrow> bool" where
  \<comment> \<open>the canonical format of an identifier, \<^verbatim>\<open>^[0-9A-F]{8,16}$\<close>\<close>
  "canonical_format uid =
     (8 \<le> length uid \<and> length uid \<le> 16
      \<and> list_all (\<lambda>c. (0x30 \<le> c \<and> c \<le> 0x39) \<or> (0x41 \<le> c \<and> c \<le> 0x46)) uid)"

text \<open>
  The validation as the specification words it: strip every character not in
  \<^verbatim>\<open>[A-Fa-f0-9]\<close>, accept if and only if 8 to 16 characters are left, and return them
  uppercased.
\<close>

definition validate :: "(jsstring \<Rightarrow> jsstring) \<Rightarrow> jsstring \<Rightarrow> jsstring option" where
  "validate uc rawText =
     (let stripped =
        filter (\<lambda>c. (0x41 \<le> c \<and> c \<le> 0x46) \<or> (0x61 \<le> c \<and> c \<le> 0x66) \<or> (0x30 \<le> c \<and> c \<le> 0x39))
          rawText
      in if 8 \<le> length stripped \<and> length stripped \<le> 16
         then Some (toUpperCase uc stripped) else None)"

subsection \<open>Auxiliary notions for the statements\<close>

definition teardown_ok :: "closure \<Rightarrow> teardown \<Rightarrow> bool" where
  \<comment> \<open>no call that \<open>disconnectRFIDReader\<close> makes with this closure rejects\<close>
  "teardown_ok c t =
     ((c_reader c = None \<or> cancel_ok t) \<and> (c_serialPort c = None \<or> close_ok t))"

definition latin1_uc :: "jsstring \<Rightarrow> jsstring" where
  \<comment> \<open>the case table used in the examples: the Unicode uppercase mapping on a text of
      characters below U+0100, which sends U+00DF to \<^verbatim>\<open>SS\<close>, U+00FF to U+0178,
      U+00B5 to U+039C, the letters U+00E0 to U+00FE (but the division sign U+00F7)
      to U+00C0 to U+00DE, and leaves the rest to \<open>upper_ascii\<close>\<close>
  "latin1_uc s =
     concat (map (\<lambda>c.
       if c = 0xDF then [0x53, 0x53]
       else if c = 0xFF then [0x178]
       else if c = 0xB5 then [0x39C]
       else if 0xE0 \<le> c \<and> c \<le> 0xFE \<and> c \<noteq> 0xF7 then [c - 0x20]
       else [upper_ascii c]) s)"

definition connected :: scanner where
  \<comment> \<open>a fresh component, activated on a browser with Web Serial, then connected to
      port 1 with reader 1\<close>
  "connected = connectRFIDReader (Opened 1 1) (initializeRFIDReader True (initial None))"

definition scenario_A :: jsstring where
  \<comment> \<open>the chunk \<^verbatim>\<open>"045a2e92\r\n"\<close>\<close>
  "scenario_A = js ''045a2e92'' @ [0x0D, 0x0A]"

definition labelled_uid :: jsstring where
  \<comment> \<open>the chunk \<^verbatim>\<open>"UID: 04 5A 2E 92\r\n"\<close>, a reader that prints a label and spaced bytes\<close>
  "labelled_uid = js ''UID: 04 5A 2E 92'' @ [0x0D, 0x0A]"

section \<open>Properties of the text functions\<close>

lemma decimal_small: "n < 10 \<Longrightarrow> decimal n = [0x30 + n]"
  by (subst decimal.simps) simp

lemma decimal_large: "10 \<le> n \<Longrightarrow> decimal n = decimal (n div 10) @ [0x30 + n mod 10]"
  by (subst decimal.simps) simp

lemma colon_notin_decimal: "0x3A \<notin> set (decimal n)"
proof (induction n rule: decimal.induct)
  case (1 n)
  show ?case
  proof (cases "n < 10")
    case True
    then show ?thesis by (simp add: decimal_small)
  next
    case False
    have "n mod 10 < 10" by simp
    then have "0x3A \<noteq> 0x30 + n mod 10" by linarith
    with False 1 show ?thesis by (simp add: decimal_large)
  qed
qed

lemma decimal_example: "decimal 1700000000000 = js ''1700000000000''"
  by (simp add: decimal_small decimal_large js_def)

lemma identifier_of_payload: "identifier_of (rfid_payload uid ts) = uid"
proof -
  have "dropWhile (\<lambda>c. c \<noteq> 0x3A) (rev (decimal ts) @ 0x3A # rev uid) = 0x3A # rev uid"
    using colon_notin_decimal [of ts] by (subst dropWhile_append2) auto
  then show ?thesis
    by (simp add: identifier_of_def rfid_payload_def js_def)
qed

lemma hex_is_ascii: "is_hex c \<Longrightarrow> c < 0x80"
  by (auto simp: is_hex_def)

lemma toUpperCase_hex: "list_all is_hex s \<Longrightarrow> toUpperCase uc s = map upper_ascii s"
proof -
  assume "list_all is_hex s"
  then have "list_all (\<lambda>c. c < 0x80) s"
    by (auto simp: list_all_iff dest: hex_is_ascii)
  then show ?thesis by (simp add: toUpperCase_def)
qed

lemma upper_ascii_hex:
  "is_hex c \<Longrightarrow>
     (0x30 \<le> upper_ascii c \<and> upper_ascii c \<le> 0x39) \<or> (0x41 \<le> upper_ascii c \<and> upper_ascii c \<le> 0x46)"
  by (auto simp: is_hex_def upper_ascii_def)

lemma canonical_toUpperCase:
  assumes "rfidPattern_test s"
  shows "canonical_format (toUpperCase uc s)"
proof -
  from assms have h: "list_all is_hex s"
    by (simp add: rfidPattern_test_def)
  have "list_all (\<lambda>c. (0x30 \<le> c \<and> c \<le> 0x39) \<or> (0x41 \<le> c \<and> c \<le> 0x46)) (map upper_ascii s)"
    unfolding list_all_iff
  proof
    fix c
    assume "c \<in> set (map upper_ascii s)"
    then obtain d where d: "d \<in> set s" "c = upper_ascii d"
      by auto
    from d(1) h have "is_hex d"
      by (simp add: list_all_iff)
    with d(2) show "(0x30 \<le> c \<and> c \<le> 0x39) \<or> (0x41 \<le> c \<and> c \<le> 0x46)"
      using upper_ascii_hex by blast
  qed
  with assms show ?thesis
    by (simp add: canonical_format_def rfidPattern_test_def toUpperCase_hex [OF h])
qed

lemma rfidPattern_cleanRFID:
  "rfidPattern_test (cleanRFID raw) \<longleftrightarrow>
     8 \<le> length (cleanRFID raw) \<and> length (cleanRFID raw) \<le> 16"
  by (simp add: rfidPattern_test_def cleanRFID_def list_all_iff)

lemma filter_dropWhile_neg: "filter (\<lambda>x. \<not> P x) (dropWhile P xs) = filter (\<lambda>x. \<not> P x) xs"
  by (induction xs) auto

lemma filter_trim: "filter (\<lambda>c. \<not> is_ws c) (trim s) = filter (\<lambda>c. \<not> is_ws c) s"
  by (simp add: trim_def rev_filter [symmetric] filter_dropWhile_neg)

lemma hex_not_ws: "is_hex c \<Longrightarrow> \<not> is_ws c"
  by (auto simp: is_hex_def is_ws_def)

lemma hex_not_crlf: "is_hex c \<Longrightarrow> \<not> is_crlf c"
  by (auto simp: is_hex_def is_crlf_def)

lemma filter_hex_trim: "filter is_hex (trim s) = filter is_hex s"
proof -
  have "filter is_hex xs = filter is_hex (filter (\<lambda>c. \<not> is_ws c) xs)" for xs
    by (induction xs) (auto dest: hex_not_ws)
  then show ?thesis by (metis filter_trim)
qed

lemma filter_hex_cleanData: "filter is_hex (cleanData data) = filter is_hex data"
proof -
  have "filter is_hex (filter (\<lambda>c. \<not> is_crlf c) xs) = filter is_hex xs" for xs
    by (induction xs) (auto dest: hex_not_crlf)
  then show ?thesis by (simp add: cleanData_def filter_hex_trim)
qed

lemma length_cleanRFID_le_cleanData: "length (cleanRFID raw) \<le> length (cleanData raw)"
proof -
  have "length (filter is_hex (cleanData raw)) \<le> length (cleanData raw)"
    by (rule length_filter_le)
  then show ?thesis by (simp add: filter_hex_cleanData cleanRFID_def)
qed

lemma length_cleanRFID_le_trim: "length (cleanRFID raw) \<le> length (trim raw)"
proof -
  have "length (filter is_hex (trim raw)) \<le> length (trim raw)"
    by (rule length_filter_le)
  then show ?thesis by (simp add: filter_hex_trim cleanRFID_def)
qed

lemma trim_hex: "list_all is_hex raw \<Longrightarrow> trim raw = raw"
proof -
  assume h: "list_all is_hex raw"
  have d: "dropWhile is_ws xs = xs" if "list_all is_hex xs" for xs
    using that by (cases xs) (auto dest: hex_not_ws)
  have "list_all is_hex (rev raw)" using h by (simp add: list_all_iff)
  then show ?thesis using h by (simp add: trim_def d)
qed

lemma cleanData_hex: "list_all is_hex raw \<Longrightarrow> cleanData raw = raw"
  by (simp add: cleanData_def trim_hex list_all_iff filter_id_conv hex_not_crlf)

lemma cleanRFID_hex: "list_all is_hex raw \<Longrightarrow> cleanRFID raw = raw"
  by (simp add: cleanRFID_def list_all_iff filter_id_conv)

section \<open>What the handlers hand to the parent\<close>

lemma emitted_append: "detected s' = detected s @ es \<Longrightarrow> emitted s s' = es"
  by (simp add: emitted_def)

lemma detected_handleManualInput:
  "detected (handleManualInput uc now seen s) = detected s @
     (if 8 \<le> length (cleanRFID (manualRFID s)) \<and> length (cleanRFID (manualRFID s)) \<le> 16
      then [rfid_payload (toUpperCase uc (cleanRFID (manualRFID s))) now] else [])"
proof (cases "8 \<le> length (cleanRFID (manualRFID s)) \<and> length (cleanRFID (manualRFID s)) \<le> 16")
  case True
  then have "trim (manualRFID s) \<noteq> []"
    using length_cleanRFID_le_trim [of "manualRFID s"] by auto
  with True show ?thesis
    by (simp add: handleManualInput_def rfidPattern_cleanRFID)
next
  case False
  then show ?thesis
    by (auto simp add: handleManualInput_def rfidPattern_cleanRFID)
qed

lemma detected_processRFIDData:
  "detected (processRFIDData uc data now seen s) = detected s @
     (if 8 \<le> length (cleanData data)
      then [rfid_payload (toUpperCase uc (cleanData data)) now] else [])"
  by (simp add: processRFIDData_def Let_def)

lemma emitted_handleManualInput:
  "emitted s (handleManualInput uc now seen s) =
     (if 8 \<le> length (cleanRFID (manualRFID s)) \<and> length (cleanRFID (manualRFID s)) \<le> 16
      then [rfid_payload (toUpperCase uc (cleanRFID (manualRFID s))) now] else [])"
  by (rule emitted_append) (rule detected_handleManualInput)

lemma emitted_processRFIDData:
  "emitted s (processRFIDData uc data now seen s) =
     (if 8 \<le> length (cleanData data)
      then [rfid_payload (toUpperCase uc (cleanData data)) now] else [])"
  by (rule emitted_append) (rule detected_processRFIDData)

lemma validate_cleanRFID:
  "validate uc raw =
     (if 8 \<le> length (cleanRFID raw) \<and> length (cleanRFID raw) \<le> 16
      then Some (toUpperCase uc (cleanRFID raw)) else None)"
proof -
  have "is_hex = (\<lambda>c. (0x41 \<le> c \<and> c \<le> 0x46) \<or> (0x61 \<le> c \<and> c \<le> 0x66) \<or> (0x30 \<le> c \<and> c \<le> 0x39))"
    by (rule ext) (rule is_hex_def)
  then show ?thesis
    by (simp only: validate_def cleanRFID_def Let_def)
qed

lemma connected_fields:
  "reader connected = Some 1" "serialPort connected = Some 1"
  "rfidReaderStatus connected = Scanning" "console connected = []" "detected connected = []"
  "cancelled connected = []" "manualRFID connected = []"
  by (simp_all add: connected_def initializeRFIDReader_def initial_def)

lemma startReading_cancelled: "rd \<in> set (cancelled s) \<Longrightarrow> startReading uc rd rs s = s"
  by (cases rs) auto

lemma status_processRFIDData:
  "rfidReaderStatus (processRFIDData uc data now seen s) = rfidReaderStatus s"
  by (simp add: processRFIDData_def Let_def)

lemma status_startReading:
  "list_all (\<lambda>r. fst r \<noteq> ReadError) rs \<Longrightarrow>
     rfidReaderStatus (startReading uc rd rs s) = rfidReaderStatus s"
  by (induction uc rd rs s rule: startReading.induct)
    (auto simp add: status_processRFIDData split: read_result.splits)

lemma scenario_A_clean: "cleanData scenario_A = js ''045a2e92''"
  by (simp add: scenario_A_def cleanData_def trim_def is_ws_def is_crlf_def js_def)

lemma scenario_A_upper: "toUpperCase uc (js ''045a2e92'') = js ''045A2E92''"
  by (simp add: toUpperCase_def upper_ascii_def js_def)

lemma status_disconnectRFIDReader:
  "rfidReaderStatus (disconnectRFIDReader c t s) =
     (if teardown_ok c t then Offline else rfidReaderStatus s)"
  by (cases "c_reader c")
    (auto simp add: disconnectRFIDReader_def teardown_ok_def Let_def)

section \<open>The claims\<close>

subsection \<open>C1\<close>

text \<open>
  C1, as the code has it. Manual entry hands an event to the parent exactly when 8 to 16
  hexadecimal digits remain after stripping, and every event it hands over carries an
  identifier in the canonical format \<^verbatim>\<open>^[0-9A-F]{8,16}$\<close>. The automatic path does not
  validate: whenever the text of the chunk, trimmed and without CR and LF, has at least
  8 characters, it hands over one event, whose identifier is that text uppercased,
  whatever the characters are and however many; otherwise it hands over nothing. The
  clear operation hands the empty text to the same callback.
\<close>
theorem emitted_identifiers:
  "emitted s (handleManualInput uc now seen s) =
     (if 8 \<le> length (cleanRFID (manualRFID s)) \<and> length (cleanRFID (manualRFID s)) \<le> 16
      then [rfid_payload (toUpperCase uc (cleanRFID (manualRFID s))) now] else [])
   \<and> list_all (\<lambda>e. canonical_format (identifier_of e))
        (emitted s (handleManualInput uc now seen s))
   \<and> emitted s' (processRFIDData uc data now seen s') =
     (if 8 \<le> length (cleanData data)
      then [rfid_payload (toUpperCase uc (cleanData data)) now] else [])
   \<and> identifier_of (rfid_payload (toUpperCase uc (cleanData data)) now)
       = toUpperCase uc (cleanData data)
   \<and> emitted s (clearRFID s) = [[]]"
proof -
  have m: "list_all (\<lambda>e. canonical_format (identifier_of e))
        (emitted s (handleManualInput uc now seen s))"
    by (simp add: emitted_handleManualInput identifier_of_payload canonical_toUpperCase
        rfidPattern_cleanRFID)
  have c: "emitted s (clearRFID s) = [[]]"
    by (simp add: emitted_def clearRFID_def)
  from m c emitted_handleManualInput [of s uc now seen]
    emitted_processRFIDData [of s' uc data now seen]
    identifier_of_payload [of "toUpperCase uc (cleanData data)" now]
  show ?thesis
    by blast
qed

theorem emitted_identifiers_witness:
  "emitted (onChange latin1_uc (js ''04:5a:2e:92'') (initial None))
     (handleManualInput latin1_uc 1700000000000 1700000000001
        (onChange latin1_uc (js ''04:5a:2e:92'') (initial None)))
     = [js ''RFID:045A2E92:1700000000000'']
   \<and> canonical_format (identifier_of (js ''RFID:045A2E92:1700000000000''))
   \<and> emitted connected (processRFIDData latin1_uc scenario_A 1700000000000 1700000000001 connected)
     = [js ''RFID:045A2E92:1700000000000'']
   \<and> emitted connected
       (processRFIDData latin1_uc ([0xE9] @ js ''045a2e9'') 1700000000000 1700000000001 connected)
     = [js ''RFID:'' @ [0xC9] @ js ''045A2E9:1700000000000'']
   \<and> emitted connected
       (processRFIDData latin1_uc ([0xA0] @ js ''045a2e9'') 1700000000000 1700000000001 connected)
     = []"
proof -
  have m: "manualRFID (onChange latin1_uc (js ''04:5a:2e:92'') (initial None)) = js ''04:5A:2E:92''"
    by (simp add: onChange_def toUpperCase_def upper_ascii_def js_def)
  have c: "cleanRFID (js ''04:5A:2E:92'') = js ''045A2E92''"
    by (simp add: cleanRFID_def is_hex_def js_def)
  have u: "toUpperCase latin1_uc (js ''045A2E92'') = js ''045A2E92''"
    by (simp add: toUpperCase_def upper_ascii_def js_def)
  have p: "rfid_payload (js ''045A2E92'') 1700000000000 = js ''RFID:045A2E92:1700000000000''"
    by (simp add: rfid_payload_def decimal_example) (simp add: js_def)
  have e9: "cleanData ([0xE9] @ js ''045a2e9'') = [0xE9] @ js ''045a2e9''"
    by (simp add: cleanData_def trim_def is_ws_def is_crlf_def js_def)
  have u9: "toUpperCase latin1_uc ([0xE9] @ js ''045a2e9'') = [0xC9] @ js ''045A2E9''"
    by (simp add: toUpperCase_def latin1_uc_def upper_ascii_def js_def)
  have p9: "rfid_payload ([0xC9] @ js ''045A2E9'') 1700000000000
      = js ''RFID:'' @ [0xC9] @ js ''045A2E9:1700000000000''"
    by (simp add: rfid_payload_def decimal_example) (simp add: js_def)
  have a0: "cleanData ([0xA0] @ js ''045a2e9'') = js ''045a2e9''"
    by (simp add: cleanData_def trim_def is_ws_def is_crlf_def js_def)
  have l7: "length (js ''045a2e9'') = 7" "length ([0xE9] @ js ''045a2e9'') = 8"
    "length (js ''045a2e92'') = 8" "length (js ''045A2E92'') = 8"
    by (simp_all add: js_def)
  note t1 = emitted_identifiers [where uc = latin1_uc
        and s = "onChange latin1_uc (js ''04:5a:2e:92'') (initial None)"
        and now = 1700000000000 and seen = 1700000000001 and s' = connected
        and data = scenario_A]
  note t2 = emitted_identifiers [where uc = latin1_uc and s = connected
        and now = 1700000000000 and seen = 1700000000001 and s' = connected
        and data = "[0xE9] @ js ''045a2e9''"]
  note t3 = emitted_identifiers [where uc = latin1_uc and s = connected
        and now = 1700000000000 and seen = 1700000000001 and s' = connected
        and data = "[0xA0] @ js ''045a2e9''"]
  have A: "emitted (onChange latin1_uc (js ''04:5a:2e:92'') (initial None))
     (handleManualInput latin1_uc 1700000000000 1700000000001
        (onChange latin1_uc (js ''04:5a:2e:92'') (initial None)))
     = [js ''RFID:045A2E92:1700000000000'']"
    using t1 by (simp only: m c u p l7) simp
  have B: "canonical_format (identifier_of (js ''RFID:045A2E92:1700000000000''))"
    using t1 by (simp only: A) simp
  have C: "emitted connected
      (processRFIDData latin1_uc scenario_A 1700000000000 1700000000001 connected)
     = [js ''RFID:045A2E92:1700000000000'']"
    using t1 by (simp only: scenario_A_clean scenario_A_upper p l7) simp
  have D: "emitted connected
       (processRFIDData latin1_uc ([0xE9] @ js ''045a2e9'') 1700000000000 1700000000001 connected)
     = [js ''RFID:'' @ [0xC9] @ js ''045A2E9:1700000000000'']"
    using t2 by (simp only: e9 u9 p9 l7) simp
  have E: "emitted connected
       (processRFIDData latin1_uc ([0xA0] @ js ''045a2e9'') 1700000000000 1700000000001 connected)
     = []"
    using t3 by (simp only: a0 l7) simp
  from A B C D E show ?thesis
    by blast
qed

text \<open>
  C1 as stated fails on the automatic path: a reader that sends
  \<^verbatim>\<open>"UID: 04 5A 2E 92\r\n"\<close> makes \<open>processRFIDData\<close> hand over an event whose
  identifier is \<^verbatim>\<open>UID: 04 5A 2E 92\<close>, which is not in the canonical format.
\<close>
theorem labelled_chunk_not_canonical:
  "emitted connected
     (processRFIDData latin1_uc labelled_uid 1700000000000 1700000000001 connected)
     = [js ''RFID:UID: 04 5A 2E 92:1700000000000'']
   \<and> identifier_of (js ''RFID:UID: 04 5A 2E 92:1700000000000'') = js ''UID: 04 5A 2E 92''
   \<and> \<not> canonical_format (js ''UID: 04 5A 2E 92'')"
proof -
  have c: "cleanData labelled_uid = js ''UID: 04 5A 2E 92''"
    by (simp add: labelled_uid_def cleanData_def trim_def is_ws_def is_crlf_def js_def)
  have u: "toUpperCase latin1_uc (js ''UID: 04 5A 2E 92'') = js ''UID: 04 5A 2E 92''"
    by (simp add: toUpperCase_def upper_ascii_def js_def)
  have l: "length (js ''UID: 04 5A 2E 92'') = 16"
    by (simp add: js_def)
  have p: "rfid_payload (js ''UID: 04 5A 2E 92'') 1700000000000
      = js ''RFID:UID: 04 5A 2E 92:1700000000000''"
    by (simp add: rfid_payload_def decimal_example) (simp add: js_def)
  have e: "emitted connected
     (processRFIDData latin1_uc labelled_uid 1700000000000 1700000000001 connected)
     = [js ''RFID:UID: 04 5A 2E 92:1700000000000'']"
    by (simp add: emitted_processRFIDData c u l p)
  have i: "identifier_of (js ''RFID:UID: 04 5A 2E 92:1700000000000'') = js ''UID: 04 5A 2E 92''"
    by (simp add: identifier_of_def js_def)
  have n: "\<not> canonical_format (js ''UID: 04 5A 2E 92'')"
    by (simp add: canonical_format_def js_def)
  from e i n show ?thesis by blast
qed

subsection \<open>C2\<close>

text \<open>
  C2, as the code has it. The two paths do not apply the same criteria. The automatic
  path trims the white space at both ends of the chunk and removes CR and LF, accepts
  if and only if at least 8 characters remain, with no upper bound and no test of the
  characters, and hands over what remains, uppercased. Manual entry strips every
  character that is not a hexadecimal digit, accepts if and only if 8 to 16 remain, and
  hands over what remains, uppercased. Hence whatever text manual entry accepts, the
  automatic path accepts as a chunk as well (at any clock reading, in any state), and on
  a text of at most 16 hexadecimal digits both paths hand over the same events.
\<close>
theorem acceptance_of_both_paths:
  "emitted s' (processRFIDData uc data now seen s') =
     (if 8 \<le> length (filter (\<lambda>c. \<not> is_crlf c) (trim data))
      then [rfid_payload (toUpperCase uc (filter (\<lambda>c. \<not> is_crlf c) (trim data))) now]
      else [])
   \<and> emitted s (handleManualInput uc now seen s) =
     (if 8 \<le> length (filter is_hex (manualRFID s)) \<and> length (filter is_hex (manualRFID s)) \<le> 16
      then [rfid_payload (toUpperCase uc (filter is_hex (manualRFID s))) now]
      else [])
   \<and> (emitted s (handleManualInput uc now seen s) \<noteq> [] \<longrightarrow>
      emitted s' (processRFIDData uc (manualRFID s) now' seen' s') \<noteq> [])
   \<and> (list_all is_hex (manualRFID s) \<and> length (manualRFID s) \<le> 16 \<longrightarrow>
      emitted s' (processRFIDData uc (manualRFID s) now seen' s')
        = emitted s (handleManualInput uc now seen s))"
proof -
  have p: "emitted s' (processRFIDData uc data now seen s') =
     (if 8 \<le> length (filter (\<lambda>c. \<not> is_crlf c) (trim data))
      then [rfid_payload (toUpperCase uc (filter (\<lambda>c. \<not> is_crlf c) (trim data))) now]
      else [])"
    using emitted_processRFIDData [of s' uc data now seen] by (simp only: cleanData_def)
  have m: "emitted s (handleManualInput uc now seen s) =
     (if 8 \<le> length (filter is_hex (manualRFID s)) \<and> length (filter is_hex (manualRFID s)) \<le> 16
      then [rfid_payload (toUpperCase uc (filter is_hex (manualRFID s))) now]
      else [])"
    using emitted_handleManualInput [of s uc now seen] by (simp only: cleanRFID_def)
  have a: "emitted s' (processRFIDData uc (manualRFID s) now' seen' s') \<noteq> []"
    if "emitted s (handleManualInput uc now seen s) \<noteq> []"
  proof -
    from that have "8 \<le> length (cleanRFID (manualRFID s))"
      by (simp add: emitted_handleManualInput split: if_splits)
    with length_cleanRFID_le_cleanData [of "manualRFID s"]
    have "8 \<le> length (cleanData (manualRFID s))"
      by simp
    then show ?thesis
      by (simp add: emitted_processRFIDData)
  qed
  have b: "emitted s' (processRFIDData uc (manualRFID s) now seen' s')
        = emitted s (handleManualInput uc now seen s)"
    if "list_all is_hex (manualRFID s) \<and> length (manualRFID s) \<le> 16"
    using that
    by (simp add: emitted_processRFIDData emitted_handleManualInput cleanData_hex cleanRFID_hex)
  from p m a b show ?thesis by blast
qed

theorem acceptance_of_both_paths_witness:
  "emitted connected
     (processRFIDData latin1_uc (js ''0123456789abcdef0123'') 1700000000000 1700000000001 connected)
     = [js ''RFID:0123456789ABCDEF0123:1700000000000'']
   \<and> emitted (onChange latin1_uc (js ''0123456789abcdef0123'') (initial None))
       (handleManualInput latin1_uc 1700000000000 1700000000001
          (onChange latin1_uc (js ''0123456789abcdef0123'') (initial None))) = []
   \<and> emitted (onChange latin1_uc (js ''045a2e92f1'') (initial None))
      (handleManualInput latin1_uc 1700000000000 1700000000001
         (onChange latin1_uc (js ''045a2e92f1'') (initial None))) \<noteq> []
   \<and> emitted connected
      (processRFIDData latin1_uc (js ''045A2E92F1'') 1700000000005 1700000000006 connected) \<noteq> []
   \<and> list_all is_hex (js ''045A2E92F1'') \<and> length (js ''045A2E92F1'') \<le> 16
   \<and> emitted connected
      (processRFIDData latin1_uc (js ''045A2E92F1'') 1700000000000 1700000000006 connected) =
      emitted (onChange latin1_uc (js ''045a2e92f1'') (initial None))
        (handleManualInput latin1_uc 1700000000000 1700000000001
           (onChange latin1_uc (js ''045a2e92f1'') (initial None)))"
proof -
  have m: "manualRFID (onChange latin1_uc (js ''045a2e92f1'') (initial None)) = js ''045A2E92F1''"
    by (simp add: onChange_def toUpperCase_def upper_ascii_def js_def)
  have h: "list_all is_hex (js ''045A2E92F1'')"
    by (simp add: is_hex_def js_def)
  have l: "length (js ''045A2E92F1'') = 10"
    by (simp add: js_def)
  have e: "emitted (onChange latin1_uc (js ''045a2e92f1'') (initial None))
      (handleManualInput latin1_uc 1700000000000 1700000000001
         (onChange latin1_uc (js ''045a2e92f1'') (initial None))) \<noteq> []"
    by (simp add: emitted_handleManualInput m cleanRFID_hex [OF h] l)
  have m2: "manualRFID (onChange latin1_uc (js ''0123456789abcdef0123'') (initial None))
      = js ''0123456789ABCDEF0123''"
    by (simp add: onChange_def toUpperCase_def upper_ascii_def js_def)
  have t2: "filter (\<lambda>c. \<not> is_crlf c) (trim (js ''0123456789abcdef0123''))
      = js ''0123456789abcdef0123''"
    by (simp add: trim_def is_ws_def is_crlf_def js_def)
  have f2: "filter is_hex (js ''0123456789ABCDEF0123'') = js ''0123456789ABCDEF0123''"
    by (simp add: is_hex_def js_def)
  have l2: "length (js ''0123456789abcdef0123'') = 20" "length (js ''0123456789ABCDEF0123'') = 20"
    by (simp_all add: js_def)
  have u2: "toUpperCase latin1_uc (js ''0123456789abcdef0123'') = js ''0123456789ABCDEF0123''"
    by (simp add: toUpperCase_def upper_ascii_def js_def)
  have p2: "rfid_payload (js ''0123456789ABCDEF0123'') 1700000000000
      = js ''RFID:0123456789ABCDEF0123:1700000000000''"
    by (simp add: rfid_payload_def decimal_example) (simp add: js_def)
  show ?thesis
    using acceptance_of_both_paths [where uc = latin1_uc
        and s = "onChange latin1_uc (js ''045a2e92f1'') (initial None)"
        and now = 1700000000000 and seen = 1700000000001
        and s' = connected and ?now' = 1700000000005 and seen' = 1700000000006
        and data = "js ''0123456789abcdef0123''"]
      acceptance_of_both_paths [where uc = latin1_uc
        and s = "onChange latin1_uc (js ''0123456789abcdef0123'') (initial None)"
        and now = 1700000000000 and seen = 1700000000001
        and s' = connected and ?now' = 1700000000005 and seen' = 1700000000006
        and data = "js ''0123456789abcdef0123''"]
      e h
    by (simp only: m m2 t2 f2 l l2 u2 p2) simp
qed

text \<open>
  C2 as stated fails on the text \<^verbatim>\<open>04-5A-2E\<close>: as a chunk it is accepted with the
  dashes in its identifier, and as manual input it is rejected, since only 6
  hexadecimal digits remain after stripping.
\<close>
theorem dashed_text_paths_differ:
  "emitted connected
     (processRFIDData latin1_uc (js ''04-5A-2E'') 1700000000000 1700000000001 connected)
     = [js ''RFID:04-5A-2E:1700000000000'']
   \<and> emitted (onChange latin1_uc (js ''04-5A-2E'') (initial None))
       (handleManualInput latin1_uc 1700000000000 1700000000001
          (onChange latin1_uc (js ''04-5A-2E'') (initial None))) = []
   \<and> length (cleanRFID (js ''04-5A-2E'')) = 6"
proof -
  have c: "cleanData (js ''04-5A-2E'') = js ''04-5A-2E''"
    by (simp add: cleanData_def trim_def is_ws_def is_crlf_def js_def)
  have u: "toUpperCase latin1_uc (js ''04-5A-2E'') = js ''04-5A-2E''"
    by (simp add: toUpperCase_def upper_ascii_def js_def)
  have l: "length (js ''04-5A-2E'') = 8"
    by (simp add: js_def)
  have p: "rfid_payload (js ''04-5A-2E'') 1700000000000 = js ''RFID:04-5A-2E:1700000000000''"
    by (simp add: rfid_payload_def decimal_example) (simp add: js_def)
  have a: "emitted connected
     (processRFIDData latin1_uc (js ''04-5A-2E'') 1700000000000 1700000000001 connected)
     = [js ''RFID:04-5A-2E:1700000000000'']"
    by (simp add: emitted_processRFIDData c u l p)
  have m: "manualRFID (onChange latin1_uc (js ''04-5A-2E'') (initial None)) = js ''04-5A-2E''"
    by (simp add: onChange_def u)
  have r: "length (cleanRFID (js ''04-5A-2E'')) = 6"
    by (simp add: cleanRFID_def is_hex_def js_def)
  have b: "emitted (onChange latin1_uc (js ''04-5A-2E'') (initial None))
       (handleManualInput latin1_uc 1700000000000 1700000000001
          (onChange latin1_uc (js ''04-5A-2E'') (initial None))) = []"
    by (simp add: emitted_handleManualInput m r)
  from a b r show ?thesis by simp
qed

subsection \<open>C3\<close>

text \<open>
  C3. For every text in the manual field, manual entry accepts it (hands an event to the
  parent) if and only if removing every character not in \<^verbatim>\<open>[A-Fa-f0-9]\<close> leaves 8 to
  16 characters, and the identifier of the event is then that stripped text uppercased:
  the handler computes what \<open>validate\<close> of the specification computes.
\<close>
theorem manual_validation:
  "emitted s (handleManualInput uc now seen s) =
     (case validate uc (manualRFID s) of None \<Rightarrow> [] | Some uid \<Rightarrow> [rfid_payload uid now])
   \<and> (emitted s (handleManualInput uc now seen s) \<noteq> [] \<longleftrightarrow>
        8 \<le> length (filter (\<lambda>c. (0x41 \<le> c \<and> c \<le> 0x46) \<or> (0x61 \<le> c \<and> c \<le> 0x66)
                 \<or> (0x30 \<le> c \<and> c \<le> 0x39)) (manualRFID s))
        \<and> length (filter (\<lambda>c. (0x41 \<le> c \<and> c \<le> 0x46) \<or> (0x61 \<le> c \<and> c \<le> 0x66)
                 \<or> (0x30 \<le> c \<and> c \<le> 0x39)) (manualRFID s)) \<le> 16)
   \<and> list_all
        (\<lambda>e. identifier_of e =
           toUpperCase uc
             (filter (\<lambda>c. (0x41 \<le> c \<and> c \<le> 0x46) \<or> (0x61 \<le> c \<and> c \<le> 0x66)
                 \<or> (0x30 \<le> c \<and> c \<le> 0x39)) (manualRFID s)))
        (emitted s (handleManualInput uc now seen s))"
proof -
  have f: "filter (\<lambda>c. (0x41 \<le> c \<and> c \<le> 0x46) \<or> (0x61 \<le> c \<and> c \<le> 0x66)
                 \<or> (0x30 \<le> c \<and> c \<le> 0x39)) raw = cleanRFID raw" for raw
  proof -
    have "is_hex = (\<lambda>c. (0x41 \<le> c \<and> c \<le> 0x46) \<or> (0x61 \<le> c \<and> c \<le> 0x66)
                 \<or> (0x30 \<le> c \<and> c \<le> 0x39))"
      by (rule ext) (rule is_hex_def)
    then show ?thesis
      by (simp only: cleanRFID_def)
  qed
  show ?thesis
    unfolding f emitted_handleManualInput validate_cleanRFID
    by (simp add: identifier_of_payload)
qed

theorem manual_validation_witness:
  "emitted (onChange latin1_uc (js ''045a2e92f1'') (initial None))
     (handleManualInput latin1_uc 1700000000000 1700000000001
        (onChange latin1_uc (js ''045a2e92f1'') (initial None)))
   = [js ''RFID:045A2E92F1:1700000000000'']"
proof -
  have m: "manualRFID (onChange latin1_uc (js ''045a2e92f1'') (initial None)) = js ''045A2E92F1''"
    by (simp add: onChange_def toUpperCase_def upper_ascii_def js_def)
  have v: "validate latin1_uc (js ''045A2E92F1'') = Some (js ''045A2E92F1'')"
    by (simp add: validate_def toUpperCase_def upper_ascii_def js_def)
  have p: "rfid_payload (js ''045A2E92F1'') 1700000000000 = js ''RFID:045A2E92F1:1700000000000''"
    by (simp add: rfid_payload_def decimal_example) (simp add: js_def)
  show ?thesis
    using manual_validation [where uc = latin1_uc
        and s = "onChange latin1_uc (js ''045a2e92f1'') (initial None)"
        and now = 1700000000000 and seen = 1700000000001]
    by (simp add: m v p)
qed

subsection \<open>C4\<close>

text \<open>
  C4, as the code has it. After a connect that succeeds the status is \<open>Scanning\<close>. After
  a disconnect the status is \<open>Offline\<close>, not \<open>Ready\<close>, when the teardown raises no
  error, and it keeps its value otherwise. Deactivation runs the teardown twice, first
  with the closure of the effect's cleanup and then with the current one; after it the
  status is \<open>Offline\<close> when one of the two raises no error, and it keeps its value
  otherwise. A cleanup whose closure holds no reader and no port cannot raise one.
\<close>
theorem status_transitions:
  "rfidReaderStatus (connectRFIDReader (Opened port rd) s) = Scanning
   \<and> rfidReaderStatus (disconnect t s) =
       (if teardown_ok (current s) t then Offline else rfidReaderStatus s)
   \<and> rfidReaderStatus (deactivate stale t0 t s) =
       (if teardown_ok stale t0 \<or> teardown_ok (current s) t then Offline
        else rfidReaderStatus s)
   \<and> teardown_ok \<lparr>c_reader = None, c_serialPort = None\<rparr> t0"
  by (auto simp add: disconnect_def deactivate_def status_disconnectRFIDReader teardown_ok_def)

theorem status_transitions_witness:
  "rfidReaderStatus (connectRFIDReader (Opened 1 1) (initializeRFIDReader True (initial None)))
     = Scanning
   \<and> rfidReaderStatus (disconnect \<lparr>cancel_ok = True, close_ok = True\<rparr> connected) = Offline
   \<and> rfidReaderStatus
       (deactivate \<lparr>c_reader = None, c_serialPort = None\<rparr>
          \<lparr>cancel_ok = False, close_ok = False\<rparr> \<lparr>cancel_ok = False, close_ok = False\<rparr>
          connected) = Offline"
  using status_transitions [where port = 1 and rd = 1
      and s = "initializeRFIDReader True (initial None)"]
    status_transitions [where s = connected and t = "\<lparr>cancel_ok = True, close_ok = True\<rparr>"]
    status_transitions [where s = connected
      and stale = "\<lparr>c_reader = None, c_serialPort = None\<rparr>"
      and ?t0.0 = "\<lparr>cancel_ok = False, close_ok = False\<rparr>"
      and t = "\<lparr>cancel_ok = False, close_ok = False\<rparr>"]
  by (simp add: teardown_ok_def current_def)

text \<open>
  C4 as stated fails on disconnect: from the connected state, with
  \<^verbatim>\<open>cancel\<close> and \<^verbatim>\<open>close\<close> both resolving, the status after the disconnect is
  \<open>Offline\<close>.
\<close>
theorem disconnect_ends_offline:
  "rfidReaderStatus (disconnect \<lparr>cancel_ok = True, close_ok = True\<rparr> connected) = Offline
   \<and> rfidReaderStatus (disconnect \<lparr>cancel_ok = True, close_ok = True\<rparr> connected) \<noteq> Ready"
  by (simp add: disconnect_def status_disconnectRFIDReader teardown_ok_def)

subsection \<open>C5\<close>

lemma payload_not_empty: "rfid_payload uid ts \<noteq> []"
  by (simp add: rfid_payload_def js_def)

text \<open>
  C5, as the code has it. The clear operation empties the manual field, resets the
  last-scan time and calls \<^verbatim>\<open>onRFIDDetected\<close> exactly once, with the empty text:
  the cleared state goes through the event callback as a zero-length value, which is
  no \<^verbatim>\<open>RFID:<identifier>:<time>\<close> payload. Status, reader, port and toasts keep
  their values.
\<close>
theorem clear_hands_over_empty_text:
  "manualRFID (clearRFID s) = []
   \<and> lastScanTime (clearRFID s) = None
   \<and> emitted s (clearRFID s) = [[]]
   \<and> [] \<noteq> rfid_payload uid ts
   \<and> identifier_of [] = []
   \<and> rfidReaderStatus (clearRFID s) = rfidReaderStatus s
   \<and> reader (clearRFID s) = reader s
   \<and> serialPort (clearRFID s) = serialPort s
   \<and> toasts (clearRFID s) = toasts s"
  using payload_not_empty [of uid ts]
  by (simp add: clearRFID_def emitted_def identifier_of_def)

theorem clear_hands_over_empty_text_witness:
  "emitted (processRFIDData latin1_uc scenario_A 1700000000000 1700000000001 connected)
     (clearRFID (processRFIDData latin1_uc scenario_A 1700000000000 1700000000001 connected))
     = [[]]
   \<and> manualRFID
       (clearRFID (processRFIDData latin1_uc scenario_A 1700000000000 1700000000001 connected))
     = []"
  using clear_hands_over_empty_text
    [where s = "processRFIDData latin1_uc scenario_A 1700000000000 1700000000001 connected"]
  by simp

text \<open>
  C5 as stated fails: on a component that shows a configured card, the clear operation
  does call the event callback, and what it hands over is the empty text.
\<close>
theorem clear_reaches_the_parent:
  "detected (clearRFID (initial (Some (js ''RFID:045A2E92:1700000000000'')))) = [[]]
   \<and> detected (clearRFID (initial (Some (js ''RFID:045A2E92:1700000000000''))))
      \<noteq> detected (initial (Some (js ''RFID:045A2E92:1700000000000'')))"
  by (simp add: clearRFID_def initial_def)

subsection \<open>C6\<close>

lemma scenario_C_clean: "cleanRFID (js ''zz-04-5A-2E-92'') = js ''045A2E92''"
  by (simp add: cleanRFID_def is_hex_def js_def)

lemma scenario_C_upper: "toUpperCase uc (js ''zz-04-5A-2E-92'') = js ''ZZ-04-5A-2E-92''"
  by (simp add: toUpperCase_def upper_ascii_def js_def)

lemma scenario_C_clean_upper: "cleanRFID (js ''ZZ-04-5A-2E-92'') = js ''045A2E92''"
  by (simp add: cleanRFID_def is_hex_def js_def)

lemma uid_upper: "toUpperCase uc (js ''045A2E92'') = js ''045A2E92''"
  by (simp add: toUpperCase_def upper_ascii_def js_def)

lemma uid_length: "length (js ''045A2E92'') = 8"
  by (simp add: js_def)

lemma uid_payload:
  "rfid_payload (js ''045A2E92'') 1700000000000 = js ''RFID:045A2E92:1700000000000''"
  by (simp add: rfid_payload_def decimal_example) (simp add: js_def)

text \<open>
  C6, as the code has it. For the manual input \<^verbatim>\<open>zz-04-5A-2E-92\<close>, stripping the
  characters that are not hexadecimal digits leaves \<^verbatim>\<open>045A2E92\<close>, of length 8
  (\<^verbatim>\<open>A\<close> is a hexadecimal digit), so the input is accepted: an event with the
  identifier \<^verbatim>\<open>045A2E92\<close> is handed to the parent and the success toast is shown,
  whether the text stands in the field as it is or went through the field's
  \<^verbatim>\<open>onChange\<close>, which uppercases it.
\<close>
theorem scenario_C_is_accepted:
  "cleanRFID (js ''zz-04-5A-2E-92'') = js ''045A2E92''
   \<and> length (cleanRFID (js ''zz-04-5A-2E-92'')) = 8
   \<and> emitted (s\<lparr>manualRFID := js ''zz-04-5A-2E-92''\<rparr>)
       (handleManualInput uc now seen (s\<lparr>manualRFID := js ''zz-04-5A-2E-92''\<rparr>))
     = [rfid_payload (js ''045A2E92'') now]
   \<and> emitted (onChange uc (js ''zz-04-5A-2E-92'') s)
       (handleManualInput uc now seen (onChange uc (js ''zz-04-5A-2E-92'') s))
     = [rfid_payload (js ''045A2E92'') now]
   \<and> toasts (handleManualInput uc now seen (onChange uc (js ''zz-04-5A-2E-92'') s)) = toasts s @
       [\<lparr>title = js ''RFID Set Successfully'', description = js ''Card UID: 045A2E92'',
         variant = Default, duration = None\<rparr>]"
proof -
  have m: "manualRFID (onChange uc (js ''zz-04-5A-2E-92'') s) = js ''ZZ-04-5A-2E-92''"
    by (simp add: onChange_def scenario_C_upper)
  have t: "trim (js ''ZZ-04-5A-2E-92'') \<noteq> []"
    by (simp add: trim_def is_ws_def js_def)
  have p: "rfidPattern_test (js ''045A2E92'')"
    by (simp add: rfidPattern_test_def is_hex_def js_def)
  have d: "js ''Card UID: '' @ js ''045A2E92'' = js ''Card UID: 045A2E92''"
    by (simp add: js_def)
  have a: "emitted (s\<lparr>manualRFID := js ''zz-04-5A-2E-92''\<rparr>)
       (handleManualInput uc now seen (s\<lparr>manualRFID := js ''zz-04-5A-2E-92''\<rparr>))
     = [rfid_payload (js ''045A2E92'') now]"
    by (simp add: emitted_handleManualInput scenario_C_clean uid_upper uid_length)
  have b: "emitted (onChange uc (js ''zz-04-5A-2E-92'') s)
       (handleManualInput uc now seen (onChange uc (js ''zz-04-5A-2E-92'') s))
     = [rfid_payload (js ''045A2E92'') now]"
    by (simp add: emitted_handleManualInput m scenario_C_clean_upper uid_upper uid_length)
  have c: "toasts (handleManualInput uc now seen (onChange uc (js ''zz-04-5A-2E-92'') s)) = toasts s @
       [\<lparr>title = js ''RFID Set Successfully'', description = js ''Card UID: 045A2E92'',
         variant = Default, duration = None\<rparr>]"
    by (simp add: handleManualInput_def m t p scenario_C_clean_upper uid_upper d)
      (simp add: onChange_def)
  from a b c show ?thesis
    by (simp add: scenario_C_clean uid_length)
qed

theorem scenario_C_is_accepted_witness:
  "emitted (onChange latin1_uc (js ''zz-04-5A-2E-92'') (initial None))
       (handleManualInput latin1_uc 1700000000000 1700000000001
          (onChange latin1_uc (js ''zz-04-5A-2E-92'') (initial None)))
     = [js ''RFID:045A2E92:1700000000000'']"
  using scenario_C_is_accepted [where uc = latin1_uc and s = "initial None"
      and now = 1700000000000 and seen = 1700000000001]
  by (simp add: uid_payload)

text \<open>
  C6 as stated fails: the stripped text is not \<^verbatim>\<open>0452E92\<close>, its length is not 7,
  an event is handed to the parent, and the toast is not the one for an invalid format.
\<close>
theorem scenario_C_not_rejected:
  "cleanRFID (js ''zz-04-5A-2E-92'') \<noteq> js ''0452E92''
   \<and> length (cleanRFID (js ''zz-04-5A-2E-92'')) \<noteq> 7
   \<and> detected (handleManualInput latin1_uc 1700000000000 1700000000001
        ((initial None)\<lparr>manualRFID := js ''zz-04-5A-2E-92''\<rparr>))
     = [js ''RFID:045A2E92:1700000000000'']
   \<and> toasts (handleManualInput latin1_uc 1700000000000 1700000000001
        ((initial None)\<lparr>manualRFID := js ''zz-04-5A-2E-92''\<rparr>))
     \<noteq> [invalid_format]"
proof -
  have d: "detected (handleManualInput latin1_uc 1700000000000 1700000000001
        ((initial None)\<lparr>manualRFID := js ''zz-04-5A-2E-92''\<rparr>))
     = [js ''RFID:045A2E92:1700000000000'']"
    by (simp add: detected_handleManualInput scenario_C_clean uid_upper uid_length uid_payload
        initial_def)
  have t: "trim (js ''zz-04-5A-2E-92'') \<noteq> []"
    by (simp add: trim_def is_ws_def js_def)
  have p: "rfidPattern_test (js ''045A2E92'')"
    by (simp add: rfidPattern_test_def is_hex_def js_def)
  have n: "toasts (handleManualInput latin1_uc 1700000000000 1700000000001
        ((initial None)\<lparr>manualRFID := js ''zz-04-5A-2E-92''\<rparr>))
     \<noteq> [invalid_format]"
    by (simp add: handleManualInput_def t p scenario_C_clean initial_def invalid_format_def)
  have x: "js ''045A2E92'' \<noteq> js ''0452E92''"
    by (simp add: js_def)
  from d n x show ?thesis
    by (simp add: scenario_C_clean uid_length)
qed

subsection \<open>C7\<close>

text \<open>
  C7, as the code has it. A manual input that fails validation and is not blank is
  reported with the toast \<^verbatim>\<open>Invalid RFID Format\<close>, and nothing else in the state
  changes. A blank input (empty, or nothing but the white space that
  \<^verbatim>\<open>trim\<close> removes, the no-break space included) fails validation too, and is
  dropped without any report: the state stays as it is, toasts included.
\<close>
theorem invalid_manual_input_reported:
  "(validate uc (manualRFID s) = None \<and> trim (manualRFID s) \<noteq> [] \<longrightarrow>
      handleManualInput uc now seen s = s\<lparr>toasts := toasts s @ [invalid_format]\<rparr>)
   \<and> (trim (manualRFID s) = [] \<longrightarrow>
      validate uc (manualRFID s) = None \<and> handleManualInput uc now seen s = s)"
proof (intro conjI impI)
  assume a: "validate uc (manualRFID s) = None \<and> trim (manualRFID s) \<noteq> []"
  then have "\<not> rfidPattern_test (cleanRFID (manualRFID s))"
    by (simp add: validate_cleanRFID rfidPattern_cleanRFID split: if_splits)
  with a show "handleManualInput uc now seen s = s\<lparr>toasts := toasts s @ [invalid_format]\<rparr>"
    by (simp add: handleManualInput_def)
next
  assume b: "trim (manualRFID s) = []"
  with length_cleanRFID_le_trim [of "manualRFID s"]
  show "validate uc (manualRFID s) = None"
    by (simp add: validate_cleanRFID)
  from b show "handleManualInput uc now seen s = s"
    by (simp add: handleManualInput_def)
qed

theorem invalid_manual_input_reported_witness:
  "handleManualInput latin1_uc 1700000000000 1700000000001
       (onChange latin1_uc (js ''12ab'') (initial None))
     = (onChange latin1_uc (js ''12ab'') (initial None))\<lparr>toasts := [invalid_format]\<rparr>
   \<and> handleManualInput latin1_uc 1700000000000 1700000000001
       (onChange latin1_uc (js ''   '') (initial None))
     = onChange latin1_uc (js ''   '') (initial None)
   \<and> handleManualInput latin1_uc 1700000000000 1700000000001
       (onChange latin1_uc [0xA0] (initial None))
     = onChange latin1_uc [0xA0] (initial None)"
proof -
  have m: "manualRFID (onChange latin1_uc (js ''12ab'') (initial None)) = js ''12AB''"
    by (simp add: onChange_def toUpperCase_def upper_ascii_def js_def)
  have v: "validate latin1_uc (js ''12AB'') = None"
    by (simp add: validate_def js_def)
  have t: "trim (js ''12AB'') \<noteq> []"
    by (simp add: trim_def is_ws_def js_def)
  have e: "toasts (onChange latin1_uc (js ''12ab'') (initial None)) = []"
    by (simp add: onChange_def initial_def)
  have m2: "manualRFID (onChange latin1_uc (js ''   '') (initial None)) = js ''   ''"
    by (simp add: onChange_def toUpperCase_def upper_ascii_def js_def)
  have t2: "trim (js ''   '') = []"
    by (simp add: trim_def is_ws_def js_def)
  have m3: "manualRFID (onChange latin1_uc [0xA0] (initial None)) = [0xA0]"
    by (simp add: onChange_def toUpperCase_def latin1_uc_def upper_ascii_def)
  have t3: "trim [0xA0] = []"
    by (simp add: trim_def is_ws_def)
  note i1 = invalid_manual_input_reported [where uc = latin1_uc
        and s = "onChange latin1_uc (js ''12ab'') (initial None)"
        and now = 1700000000000 and seen = 1700000000001]
  note i2 = invalid_manual_input_reported [where uc = latin1_uc
        and s = "onChange latin1_uc (js ''   '') (initial None)"
        and now = 1700000000000 and seen = 1700000000001]
  note i3 = invalid_manual_input_reported [where uc = latin1_uc
        and s = "onChange latin1_uc [0xA0] (initial None)"
        and now = 1700000000000 and seen = 1700000000001]
  have A: "handleManualInput latin1_uc 1700000000000 1700000000001
       (onChange latin1_uc (js ''12ab'') (initial None))
     = (onChange latin1_uc (js ''12ab'') (initial None))\<lparr>toasts := [invalid_format]\<rparr>"
    using i1 by (simp add: m v t e)
  have B: "handleManualInput latin1_uc 1700000000000 1700000000001
       (onChange latin1_uc (js ''   '') (initial None))
     = onChange latin1_uc (js ''   '') (initial None)"
    using i2 by (simp add: m2 t2)
  have C: "handleManualInput latin1_uc 1700000000000 1700000000001
       (onChange latin1_uc [0xA0] (initial None))
     = onChange latin1_uc [0xA0] (initial None)"
    using i3 by (simp add: m3 t3)
  from A B C show ?thesis by blast
qed

text \<open>
  C7 as stated fails on the empty field of a fresh component: validation fails, and
  \<open>handleManualInput\<close> changes nothing and shows no toast.
\<close>
theorem empty_field_dropped_silently:
  "validate latin1_uc (manualRFID (initial None)) = None
   \<and> handleManualInput latin1_uc 1700000000000 1700000000001 (initial None) = initial None
   \<and> toasts (handleManualInput latin1_uc 1700000000000 1700000000001 (initial None)) = []"
proof -
  have m: "manualRFID (initial None) = []"
    by (simp add: initial_def)
  have v: "validate latin1_uc [] = None"
    by (simp add: validate_def)
  have t: "trim [] = []"
    by (simp add: trim_def)
  have h: "handleManualInput latin1_uc 1700000000000 1700000000001 (initial None) = initial None"
    by (simp add: handleManualInput_def m t)
  have "toasts (initial None) = []"
    by (simp add: initial_def)
  with h m v show ?thesis
    by simp
qed

subsection \<open>C8\<close>

lemma reader_disconnect:
  "reader (disconnect t s) = (if reader s \<noteq> None \<and> \<not> cancel_ok t then reader s else None)"
  by (cases "reader s")
    (auto simp add: disconnect_def disconnectRFIDReader_def current_def Let_def)

lemma serialPort_disconnect:
  "serialPort (disconnect t s) = (if teardown_ok (current s) t then None else serialPort s)"
  by (cases "reader s"; cases "serialPort s")
    (auto simp add: disconnect_def disconnectRFIDReader_def current_def teardown_ok_def Let_def)

lemma console_disconnect:
  "console (disconnect t s) =
     (if teardown_ok (current s) t then console s else console s @ [disconnect_error])"
  by (cases "reader s"; cases "serialPort s")
    (auto simp add: disconnect_def disconnectRFIDReader_def current_def teardown_ok_def Let_def)

lemma status_disconnect:
  "rfidReaderStatus (disconnect t s) =
     (if teardown_ok (current s) t then Offline else rfidReaderStatus s)"
  by (simp add: disconnect_def status_disconnectRFIDReader)

text \<open>
  C8, as the code has it. An error raised during the teardown is caught and logged,
  and it ends the teardown there. When \<^verbatim>\<open>cancel\<close> rejects, reader, port and status
  keep their values. When \<^verbatim>\<open>close\<close> rejects, the reader is cleared, and the port
  stays stored and the status keeps its value. Only when neither rejects are reader and
  port cleared and the status set to \<open>Offline\<close>, with nothing logged.
\<close>
theorem teardown_error_blocks_transition:
  "(reader s \<noteq> None \<and> \<not> cancel_ok t \<longrightarrow>
      reader (disconnect t s) = reader s
      \<and> serialPort (disconnect t s) = serialPort s
      \<and> rfidReaderStatus (disconnect t s) = rfidReaderStatus s
      \<and> console (disconnect t s) = console s @ [disconnect_error])
   \<and> ((reader s = None \<or> cancel_ok t) \<and> serialPort s \<noteq> None \<and> \<not> close_ok t \<longrightarrow>
      reader (disconnect t s) = None
      \<and> serialPort (disconnect t s) = serialPort s
      \<and> rfidReaderStatus (disconnect t s) = rfidReaderStatus s
      \<and> console (disconnect t s) = console s @ [disconnect_error])
   \<and> (teardown_ok (current s) t \<longrightarrow>
      reader (disconnect t s) = None
      \<and> serialPort (disconnect t s) = None
      \<and> rfidReaderStatus (disconnect t s) = Offline
      \<and> console (disconnect t s) = console s)"
proof (intro conjI impI)
  assume a: "reader s \<noteq> None \<and> \<not> cancel_ok t"
  then have n: "\<not> teardown_ok (current s) t"
    by (simp add: teardown_ok_def current_def)
  from a show "reader (disconnect t s) = reader s" by (simp add: reader_disconnect)
  from n show "serialPort (disconnect t s) = serialPort s" by (simp add: serialPort_disconnect)
  from n show "rfidReaderStatus (disconnect t s) = rfidReaderStatus s"
    by (simp add: status_disconnect)
  from n show "console (disconnect t s) = console s @ [disconnect_error]"
    by (simp add: console_disconnect)
next
  assume a: "(reader s = None \<or> cancel_ok t) \<and> serialPort s \<noteq> None \<and> \<not> close_ok t"
  then have n: "\<not> teardown_ok (current s) t"
    by (simp add: teardown_ok_def current_def)
  from a show "reader (disconnect t s) = None" by (auto simp add: reader_disconnect)
  from n show "serialPort (disconnect t s) = serialPort s" by (simp add: serialPort_disconnect)
  from n show "rfidReaderStatus (disconnect t s) = rfidReaderStatus s"
    by (simp add: status_disconnect)
  from n show "console (disconnect t s) = console s @ [disconnect_error]"
    by (simp add: console_disconnect)
next
  assume a: "teardown_ok (current s) t"
  then show "reader (disconnect t s) = None"
    by (auto simp add: reader_disconnect teardown_ok_def current_def)
  from a show "serialPort (disconnect t s) = None" by (simp add: serialPort_disconnect)
  from a show "rfidReaderStatus (disconnect t s) = Offline" by (simp add: status_disconnect)
  from a show "console (disconnect t s) = console s" by (simp add: console_disconnect)
qed

theorem teardown_error_blocks_transition_witness:
  "console (disconnect \<lparr>cancel_ok = False, close_ok = True\<rparr> connected) = [disconnect_error]
   \<and> rfidReaderStatus (disconnect \<lparr>cancel_ok = False, close_ok = True\<rparr> connected) = Scanning
   \<and> reader (disconnect \<lparr>cancel_ok = True, close_ok = False\<rparr> connected) = None
   \<and> console (disconnect \<lparr>cancel_ok = True, close_ok = False\<rparr> connected) = [disconnect_error]
   \<and> serialPort (disconnect \<lparr>cancel_ok = True, close_ok = True\<rparr> connected) = None
   \<and> rfidReaderStatus (disconnect \<lparr>cancel_ok = True, close_ok = True\<rparr> connected) = Offline"
  using teardown_error_blocks_transition
      [where s = connected and t = "\<lparr>cancel_ok = False, close_ok = True\<rparr>"]
    teardown_error_blocks_transition
      [where s = connected and t = "\<lparr>cancel_ok = True, close_ok = False\<rparr>"]
    teardown_error_blocks_transition
      [where s = connected and t = "\<lparr>cancel_ok = True, close_ok = True\<rparr>"]
  by (simp add: connected_fields teardown_ok_def current_def)

text \<open>
  C8 as stated fails: from the connected state, with \<^verbatim>\<open>close\<close> rejecting, the
  disconnect leaves the status \<open>Scanning\<close> and port 1 stored.
\<close>
theorem failed_close_keeps_connection:
  "rfidReaderStatus (disconnect \<lparr>cancel_ok = True, close_ok = False\<rparr> connected) = Scanning
   \<and> serialPort (disconnect \<lparr>cancel_ok = True, close_ok = False\<rparr> connected) = Some 1"
  by (simp add: status_disconnect serialPort_disconnect teardown_ok_def current_def
      connected_fields)

subsection \<open>C9\<close>

lemma cancelled_disconnectRFIDReader:
  "cancelled (disconnectRFIDReader c t s) =
     cancelled s @ (case c_reader c of None \<Rightarrow> [] | Some rd \<Rightarrow> [rd])"
  by (cases "c_reader c")
    (auto simp add: disconnectRFIDReader_def Let_def)

lemma detected_disconnectRFIDReader:
  "detected (disconnectRFIDReader c t s) = detected s"
  by (cases "c_reader c")
    (auto simp add: disconnectRFIDReader_def Let_def)

text \<open>
  C9. After a disconnect or a deactivation has returned, no event of that connection
  is handed to the parent. The code breaks this at unmount. The cleanup of the effect
  calls the \<open>disconnectRFIDReader\<close> of the render in which the component was activated,
  when nothing was connected: its closure holds no reader and no port. On the connected
  component this call cancels no reader, sets the status to \<open>Offline\<close> and returns, and
  the chunk the reader has next is handed to the parent as an event. The button's
  disconnect and the deactivation, which call the function of the latest render, do
  cancel the reader: after them the same chunk yields nothing.
\<close>
theorem chunk_after_cleanup_is_emitted:
  "rfidReaderStatus
     (unmount \<lparr>c_reader = None, c_serialPort = None\<rparr> \<lparr>cancel_ok = True, close_ok = True\<rparr>
        connected) = Offline
   \<and> cancelled
     (unmount \<lparr>c_reader = None, c_serialPort = None\<rparr> \<lparr>cancel_ok = True, close_ok = True\<rparr>
        connected) = []
   \<and> emitted
     (unmount \<lparr>c_reader = None, c_serialPort = None\<rparr> \<lparr>cancel_ok = True, close_ok = True\<rparr>
        connected)
     (startReading latin1_uc 1 [(Chunk scenario_A, 1700000000000, 1700000000001)]
        (unmount \<lparr>c_reader = None, c_serialPort = None\<rparr> \<lparr>cancel_ok = True, close_ok = True\<rparr>
           connected))
     = [js ''RFID:045A2E92:1700000000000'']
   \<and> emitted (disconnect \<lparr>cancel_ok = True, close_ok = True\<rparr> connected)
     (startReading latin1_uc 1 [(Chunk scenario_A, 1700000000000, 1700000000001)]
        (disconnect \<lparr>cancel_ok = True, close_ok = True\<rparr> connected))
     = []
   \<and> emitted
     (deactivate \<lparr>c_reader = None, c_serialPort = None\<rparr> \<lparr>cancel_ok = True, close_ok = True\<rparr>
        \<lparr>cancel_ok = True, close_ok = True\<rparr> connected)
     (startReading latin1_uc 1 [(Chunk scenario_A, 1700000000000, 1700000000001)]
        (deactivate \<lparr>c_reader = None, c_serialPort = None\<rparr> \<lparr>cancel_ok = True, close_ok = True\<rparr>
           \<lparr>cancel_ok = True, close_ok = True\<rparr> connected))
     = []"
proof -
  let ?none = "\<lparr>c_reader = None, c_serialPort = None\<rparr>"
  let ?ok = "\<lparr>cancel_ok = True, close_ok = True\<rparr>"
  let ?rs = "[(Chunk scenario_A, 1700000000000, 1700000000001)]"
  have p: "rfid_payload (js ''045A2E92'') 1700000000000 = js ''RFID:045A2E92:1700000000000''"
    by (simp add: rfid_payload_def decimal_example) (simp add: js_def)
  have l: "length (js ''045a2e92'') = 8"
    by (simp add: js_def)
  have c0: "cancelled (unmount ?none ?ok connected) = []"
    by (simp add: unmount_def cancelled_disconnectRFIDReader connected_fields)
  have st: "rfidReaderStatus (unmount ?none ?ok connected) = Offline"
    by (simp add: unmount_def status_disconnectRFIDReader teardown_ok_def)
  have "startReading latin1_uc 1 ?rs (unmount ?none ?ok connected)
      = processRFIDData latin1_uc scenario_A 1700000000000 1700000000001
          (unmount ?none ?ok connected)"
    by (simp add: c0)
  then have e: "emitted (unmount ?none ?ok connected)
      (startReading latin1_uc 1 ?rs (unmount ?none ?ok connected))
      = [js ''RFID:045A2E92:1700000000000'']"
    by (simp add: emitted_processRFIDData scenario_A_clean scenario_A_upper p l)
  have c1: "1 \<in> set (cancelled (disconnect ?ok connected))"
    by (simp add: disconnect_def cancelled_disconnectRFIDReader current_def connected_fields)
  have d: "emitted (disconnect ?ok connected)
      (startReading latin1_uc 1 ?rs (disconnect ?ok connected)) = []"
    by (simp only: startReading_cancelled [OF c1]) (simp add: emitted_def)
  have c2: "1 \<in> set (cancelled (deactivate ?none ?ok ?ok connected))"
    by (simp add: deactivate_def cancelled_disconnectRFIDReader current_def connected_fields)
  have f: "emitted (deactivate ?none ?ok ?ok connected)
      (startReading latin1_uc 1 ?rs (deactivate ?none ?ok ?ok connected)) = []"
    by (simp only: startReading_cancelled [OF c2]) (simp add: emitted_def)
  from st c0 e d f show ?thesis
    by blast
qed

subsection \<open>C10\<close>

text \<open>
  C10. Processing an incoming chunk never changes the reader status: whether the chunk
  is accepted (an event is handed to the parent, and the last-scan time and the manual
  field are set) or discarded (nothing changes at all), the status after
  \<open>processRFIDData\<close> is the status before it. So a run of the read loop changes the
  status only through a rejected read, never through a chunk.
\<close>
theorem chunk_keeps_status:
  "rfidReaderStatus (processRFIDData uc data now seen s) = rfidReaderStatus s
   \<and> (if 8 \<le> length (cleanData data)
      then emitted s (processRFIDData uc data now seen s) =
             [rfid_payload (toUpperCase uc (cleanData data)) now]
           \<and> lastScanTime (processRFIDData uc data now seen s) = Some seen
           \<and> manualRFID (processRFIDData uc data now seen s) =
               rfid_payload (toUpperCase uc (cleanData data)) now
      else processRFIDData uc data now seen s = s)
   \<and> (list_all (\<lambda>r. fst r \<noteq> ReadError) rs \<longrightarrow>
        rfidReaderStatus (startReading uc rd rs s) = rfidReaderStatus s)"
proof -
  have a: "rfidReaderStatus (processRFIDData uc data now seen s) = rfidReaderStatus s"
    by (rule status_processRFIDData)
  have b: "if 8 \<le> length (cleanData data)
      then emitted s (processRFIDData uc data now seen s) =
             [rfid_payload (toUpperCase uc (cleanData data)) now]
           \<and> lastScanTime (processRFIDData uc data now seen s) = Some seen
           \<and> manualRFID (processRFIDData uc data now seen s) =
               rfid_payload (toUpperCase uc (cleanData data)) now
      else processRFIDData uc data now seen s = s"
    by (simp add: processRFIDData_def Let_def emitted_def)
  from a b status_startReading [of rs uc rd s] show ?thesis
    by blast
qed

theorem chunk_keeps_status_witness:
  "rfidReaderStatus (processRFIDData latin1_uc scenario_A 1700000000000 1700000000001 connected)
     = Scanning
   \<and> emitted connected
       (processRFIDData latin1_uc scenario_A 1700000000000 1700000000001 connected)
     = [js ''RFID:045A2E92:1700000000000'']
   \<and> lastScanTime (processRFIDData latin1_uc scenario_A 1700000000000 1700000000001 connected)
     = Some 1700000000001
   \<and> rfidReaderStatus (processRFIDData latin1_uc (js ''12'') 1700000000000 1700000000001 connected)
     = Scanning
   \<and> processRFIDData latin1_uc (js ''12'') 1700000000000 1700000000001 connected = connected
   \<and> rfidReaderStatus
       (startReading latin1_uc 1
          [(Chunk scenario_A, 1700000000000, 1700000000001),
           (Chunk (js ''12''), 1700000000400, 1700000000401),
           (Done, 1700000000900, 1700000000900)] connected) = Scanning"
proof -
  have c2: "cleanData (js ''12'') = js ''12''"
    by (simp add: cleanData_def trim_def is_ws_def is_crlf_def js_def)
  have l: "length (js ''045a2e92'') = 8" "length (js ''12'') = 2"
    by (simp_all add: js_def)
  have p: "rfid_payload (js ''045A2E92'') 1700000000000 = js ''RFID:045A2E92:1700000000000''"
    by (simp add: rfid_payload_def decimal_example) (simp add: js_def)
  note t1 = chunk_keeps_status [where uc = latin1_uc and data = scenario_A
        and now = 1700000000000 and seen = 1700000000001 and s = connected and rd = 1
        and rs = "[(Chunk scenario_A, 1700000000000, 1700000000001),
           (Chunk (js ''12''), 1700000000400, 1700000000401),
           (Done, 1700000000900, 1700000000900)]"]
  note t2 = chunk_keeps_status [where uc = latin1_uc and data = "js ''12''"
        and now = 1700000000000 and seen = 1700000000001 and s = connected and rd = 1
        and rs = "[]"]
  have A: "rfidReaderStatus
      (processRFIDData latin1_uc scenario_A 1700000000000 1700000000001 connected) = Scanning"
    using t1 by (simp add: connected_fields)
  have B: "emitted connected
       (processRFIDData latin1_uc scenario_A 1700000000000 1700000000001 connected)
     = [js ''RFID:045A2E92:1700000000000'']
   \<and> lastScanTime (processRFIDData latin1_uc scenario_A 1700000000000 1700000000001 connected)
     = Some 1700000000001"
    using t1 by (simp add: scenario_A_clean scenario_A_upper l p del: startReading.simps)
  have C: "rfidReaderStatus
      (processRFIDData latin1_uc (js ''12'') 1700000000000 1700000000001 connected) = Scanning
   \<and> processRFIDData latin1_uc (js ''12'') 1700000000000 1700000000001 connected = connected"
    using t2 by (simp add: c2 l connected_fields)
  have D: "rfidReaderStatus
       (startReading latin1_uc 1
          [(Chunk scenario_A, 1700000000000, 1700000000001),
           (Chunk (js ''12''), 1700000000400, 1700000000401),
           (Done, 1700000000900, 1700000000900)] connected) = Scanning"
    using t1 by (simp add: connected_fields del: startReading.simps)
  from A B C D show ?thesis
    by blast
qed

end
